theory Spec2Isabelle
  imports Main
begin

section \<open>Strings\<close>

text \<open>
  A JavaScript string is a sequence of UTF-16 code units. The model covers the texts whose
  code units are below 256 (ASCII and the Latin-1 supplement, which holds the Portuguese
  letters of the keyword lists): a \<^typ>\<open>char\<close> stands for the code unit of the same
  number, and \<open>length\<close> counts code units as \<open>String.prototype.length\<close> does.
\<close>

definition code :: "char \<Rightarrow> int" where
  "code c = of_char c"

definition in_range :: "char \<Rightarrow> char \<Rightarrow> char \<Rightarrow> bool" where
  "in_range lo hi c = (code lo \<le> code c \<and> code c \<le> code hi)"

text \<open>
  \<open>String.prototype.toLowerCase\<close> on one code unit below 256: \<open>A\<close>-\<open>Z\<close> and the
  capital letters U+00C0 to U+00DE (the multiplication sign U+00D7 apart) move up by 32,
  every other code unit stays. Beyond 256 a lower-cased string can be longer than the
  string (U+0130 becomes two code units), so what is said of a key is said against the
  lower-cased name, never against the name.
\<close>

definition toLowerCase_char :: "char \<Rightarrow> char" where
  "toLowerCase_char c =
     (let n = code c
      in if (65 \<le> n \<and> n \<le> 90) \<or> (192 \<le> n \<and> n \<le> 222 \<and> n \<noteq> 215)
         then char_of (n + 32) else c)"

definition toLowerCase :: "string \<Rightarrow> string" where
  "toLowerCase s = map toLowerCase_char s"

text \<open>
  \<open>toUpperCase\<close> on one code unit, for the code units whose upper case is again one
  code unit below 256 (the program applies it to the first letters of its keyword lists
  only; \<open>U+00B5\<close>, \<open>U+00DF\<close> and \<open>U+00FF\<close>, whose upper case lies elsewhere, stay).
\<close>

definition toUpperCase_char :: "char \<Rightarrow> char" where
  "toUpperCase_char c =
     (let n = code c
      in if (97 \<le> n \<and> n \<le> 122) \<or> (224 \<le> n \<and> n \<le> 254 \<and> n \<noteq> 247)
         then char_of (n - 32) else c)"

text \<open>\<open>lang.charAt(0).toUpperCase() + lang.slice(1)\<close>\<close>

fun capitalize :: "string \<Rightarrow> string" where
  "capitalize [] = []"
| "capitalize (c # cs) = toUpperCase_char c # cs"

definition is_digit :: "char \<Rightarrow> bool" where
  "is_digit c = in_range CHR ''0'' CHR ''9'' c"

definition is_lower :: "char \<Rightarrow> bool" where
  "is_lower c = in_range CHR ''a'' CHR ''z'' c"

definition is_upper :: "char \<Rightarrow> bool" where
  "is_upper c = in_range CHR ''A'' CHR ''Z'' c"

text \<open>\<open>\w\<close> is \<open>[A-Za-z0-9_]\<close>.\<close>

definition is_word :: "char \<Rightarrow> bool" where
  "is_word c = (is_lower c \<or> is_upper c \<or> is_digit c \<or> c = CHR ''_'')"

text \<open>
  \<open>\s\<close>, and what \<open>trim\<close> removes: white space and line terminators. Below 256 these
  are TAB, LF, VT, FF, CR, SP and NBSP.
\<close>

definition is_space :: "char \<Rightarrow> bool" where
  "is_space c = (code c \<in> {9, 10, 11, 12, 13, 32, 160})"

text \<open>The dot of a pattern without the \<open>s\<close> flag: anything but a line terminator.\<close>

definition is_dot :: "char \<Rightarrow> bool" where
  "is_dot c = (code c \<noteq> 10 \<and> code c \<noteq> 13)"

definition newline :: char where
  "newline = CHR 0x0A"

definition trim :: "string \<Rightarrow> string" where
  "trim s = rev (dropWhile is_space (rev (dropWhile is_space s)))"

fun starts_with :: "string \<Rightarrow> string \<Rightarrow> bool" where
  "starts_with s [] = True"
| "starts_with [] (p # ps) = False"
| "starts_with (c # cs) (p # ps) = (c = p \<and> starts_with cs ps)"

text \<open>The suffixes of a string, longest first, the empty one last: one per start index.\<close>

fun tails :: "'a list \<Rightarrow> 'a list list" where
  "tails [] = [[]]"
| "tails (x # xs) = (x # xs) # tails xs"

text \<open>\<open>s.includes(sub)\<close>\<close>

definition str_includes :: "string \<Rightarrow> string \<Rightarrow> bool" where
  "str_includes s sub = list_ex (\<lambda>t. starts_with t sub) (tails s)"

text \<open>\<open>s.split(d)\<close> for a separator of one character; the result is never empty.\<close>

fun split_on :: "char \<Rightarrow> string \<Rightarrow> string list" where
  "split_on d [] = [[]]"
| "split_on d (c # cs) =
     (if c = d then [] # split_on d cs
      else (case split_on d cs of
              [] \<Rightarrow> [[c]]
            | x # xs \<Rightarrow> (c # x) # xs))"

text \<open>A sequence of lines as one text, the lines separated by the newline character.\<close>

fun join_lines :: "string list \<Rightarrow> string" where
  "join_lines [] = []"
| "join_lines [l] = l"
| "join_lines (l # ls) = l @ newline # join_lines ls"

section \<open>Regular expressions\<close>

text \<open>
  The patterns of the program, as terms. \<open>Cls neg P\<close> is a character class (\<open>neg\<close> for
  \<open>[^...]\<close>), a literal character being the class of that character. \<open>Star\<close> is the
  greedy \<open>*\<close> and \<open>LazyStar\<close> is \<open>*?\<close>; \<open>Bol\<close> and \<open>Eol\<close> are \<open>^\<close> and \<open>$\<close> of a
  pattern without the \<open>m\<close> flag; \<open>Look\<close> is the lookahead \<open>(?=...)\<close>. Groups capture
  nothing that the program reads, so they are not marked.
\<close>

datatype rx =
    Eps
  | Cls bool "char \<Rightarrow> bool"
  | Seq rx rx
  | Alt rx rx
  | Star rx
  | LazyStar rx
  | Bol
  | Eol
  | Look rx

text \<open>
  A character against a class. With the \<open>i\<close> flag a class has a character when it has
  a character of the same canonical form (below 256: the character, its lower case or its
  upper case); negation comes after that.
\<close>

definition cls_match :: "bool \<Rightarrow> bool \<Rightarrow> (char \<Rightarrow> bool) \<Rightarrow> char \<Rightarrow> bool" where
  "cls_match ci neg P c =
     (((if ci then P c \<or> P (toLowerCase_char c) \<or> P (toUpperCase_char c) else P c)) \<noteq> neg)"

text \<open>
  The backtracking matcher: \<open>rx_match ci n r s\<close> lists, for the pattern \<open>r\<close> started at
  the suffix \<open>s\<close> of an input of length \<open>n\<close>, the suffix left after each way to match,
  in the order in which backtracking tries them (the head is the match that the engine
  reports). An iteration of a star that consumes nothing is not repeated.
\<close>

function rx_match :: "bool \<Rightarrow> nat \<Rightarrow> rx \<Rightarrow> string \<Rightarrow> string list" where
  "rx_match ci n Eps s = [s]"
| "rx_match ci n (Cls neg P) s =
     (case s of [] \<Rightarrow> [] | c # t \<Rightarrow> if cls_match ci neg P c then [t] else [])"
| "rx_match ci n (Seq a b) s = concat (map (\<lambda>t. rx_match ci n b t) (rx_match ci n a s))"
| "rx_match ci n (Alt a b) s = rx_match ci n a s @ rx_match ci n b s"
| "rx_match ci n (Star a) s =
     concat (map (\<lambda>t. if length t < length s then rx_match ci n (Star a) t else [])
                 (rx_match ci n a s)) @ [s]"
| "rx_match ci n (LazyStar a) s =
     s # concat (map (\<lambda>t. if length t < length s then rx_match ci n (LazyStar a) t else [])
                     (rx_match ci n a s))"
| "rx_match ci n Bol s = (if length s = n then [s] else [])"
| "rx_match ci n Eol s = (if s = [] then [s] else [])"
| "rx_match ci n (Look a) s = (if rx_match ci n a s = [] then [] else [s])"
  by pat_completeness auto
termination
  by (relation "inv_image (less_than <*lex*> less_than) (\<lambda>(ci, n, r, s). (size r, length s))")
     auto

text \<open>The two equations for the stars unfold for ever, so they are applied by hand.\<close>

declare rx_match.simps(5,6) [simp del]

definition Plus :: "rx \<Rightarrow> rx" where
  "Plus r = Seq r (Star r)"

definition Opt :: "rx \<Rightarrow> rx" where
  "Opt r = Alt r Eps"

fun Exactly :: "nat \<Rightarrow> rx \<Rightarrow> rx" where
  "Exactly 0 r = Eps"
| "Exactly (Suc k) r = Seq r (Exactly k r)"

fun AtMost :: "nat \<Rightarrow> rx \<Rightarrow> rx" where
  "AtMost 0 r = Eps"
| "AtMost (Suc k) r = Alt (Seq r (AtMost k r)) Eps"

text \<open>\<open>r{lo,hi}\<close>, greedy.\<close>

definition Rep :: "nat \<Rightarrow> nat \<Rightarrow> rx \<Rightarrow> rx" where
  "Rep lo hi r = Seq (Exactly lo r) (AtMost (hi - lo) r)"

definition Chr :: "char \<Rightarrow> rx" where
  "Chr c = Cls False (\<lambda>x. x = c)"

definition seqs :: "rx list \<Rightarrow> rx" where
  "seqs rs = foldr Seq rs Eps"

definition Lit :: "string \<Rightarrow> rx" where
  "Lit s = seqs (map Chr s)"

fun alts :: "rx list \<Rightarrow> rx" where
  "alts [] = Eps"
| "alts [r] = r"
| "alts (r # rs) = Alt r (alts rs)"

text \<open>
  \<open>regex.test(s)\<close> and \<open>s.match(regex)\<close> as a truth value, for a pattern without the
  \<open>g\<close> flag: is there a match from some start index?
\<close>

definition rx_test :: "bool \<Rightarrow> rx \<Rightarrow> string \<Rightarrow> bool" where
  "rx_test ci r s = list_ex (\<lambda>t. rx_match ci (length s) r t \<noteq> []) (tails s)"

text \<open>
  \<open>s.match(regex) || []\<close> for a pattern with the \<open>g\<close> flag: the matches from left to
  right, each search starting where the last match ended (one further after an empty
  match). \<open>skip\<close> counts the characters of the last match still to pass.
\<close>

fun rx_match_all_from :: "bool \<Rightarrow> nat \<Rightarrow> rx \<Rightarrow> nat \<Rightarrow> string \<Rightarrow> string list" where
  "rx_match_all_from ci n r skip [] =
     (if skip = 0 \<and> rx_match ci n r [] \<noteq> [] then [[]] else [])"
| "rx_match_all_from ci n r skip (c # cs) =
     (if 0 < skip then rx_match_all_from ci n r (skip - 1) cs
      else (case rx_match ci n r (c # cs) of
              [] \<Rightarrow> rx_match_all_from ci n r 0 cs
            | t # _ \<Rightarrow>
                (let m = take (length (c # cs) - length t) (c # cs)
                 in m # rx_match_all_from ci n r (length m - 1) cs)))"

definition rx_match_all :: "bool \<Rightarrow> rx \<Rightarrow> string \<Rightarrow> string list" where
  "rx_match_all ci r s = rx_match_all_from ci (length s) r 0 s"

text \<open>
  \<open>s.replace(regex, '')\<close> for a pattern without the \<open>g\<close> flag: the leftmost match is cut
  out, and a string without a match is returned as it is.
\<close>

fun rx_cut_from :: "bool \<Rightarrow> nat \<Rightarrow> rx \<Rightarrow> string \<Rightarrow> string option" where
  "rx_cut_from ci n r [] = (case rx_match ci n r [] of [] \<Rightarrow> None | t # _ \<Rightarrow> Some t)"
| "rx_cut_from ci n r (c # cs) =
     (case rx_match ci n r (c # cs) of
        [] \<Rightarrow> map_option (\<lambda>rest. c # rest) (rx_cut_from ci n r cs)
      | t # _ \<Rightarrow> Some t)"

definition rx_remove_first :: "bool \<Rightarrow> rx \<Rightarrow> string \<Rightarrow> string" where
  "rx_remove_first ci r s = (case rx_cut_from ci (length s) r s of None \<Rightarrow> s | Some s' \<Rightarrow> s')"

section \<open>The profile record\<close>

datatype json =
    JNull
  | JBool bool
  | JNum int
  | JStr string
  | JArr "json list"
  | JObj "(string \<times> json) list"

text \<open>\<open>Record<string, any>\<close>: an object used as a dictionary from keys to JSON values.\<close>

type_synonym dict = "string \<rightharpoonup> json"

record language_entry =
  lang_name :: string
  lang_proficiency :: string
  lang_context :: "string option"

record skills =
  operating_systems :: "string list option"
  programming_languages :: "string list option"
  areas_of_expertise :: "string list option"
  tools_and_technologies :: "string list option"

text \<open>
  \<open>interface ProfileData\<close>: every field is optional, \<open>None\<close> is the absent field.
  \<open>Partial<ProfileData>\<close> is the same type.
\<close>

record ProfileData =
  name :: "string option"
  contact :: "string list option"
  facts :: "string list option"
  projects :: "dict option"
  languages :: "language_entry list option"
  certifications :: "dict option"
  superior_education :: "dict option"
  professional_experience :: "dict option"
  academical_research :: "dict option"
  memberships :: "dict option"
  technical_skills :: "skills option"
  github_stats :: "dict option"

definition empty_profile :: ProfileData where
  "empty_profile =
     \<lparr>name = None, contact = None, facts = None, projects = None, languages = None,
      certifications = None, superior_education = None, professional_experience = None,
      academical_research = None, memberships = None, technical_skills = None,
      github_stats = None\<rparr>"

section \<open>mergeProfileData\<close>

text \<open>
  \<open>{ ...a, ...b }\<close> on dictionaries: the keys of \<open>a\<close>, then those of \<open>b\<close>, a key of
  \<open>b\<close> replacing the same key of \<open>a\<close>. Spreading \<open>undefined\<close> copies nothing.
\<close>

definition spread_dict :: "dict option \<Rightarrow> dict \<Rightarrow> dict" where
  "spread_dict a b = (case a of None \<Rightarrow> Map.empty | Some m \<Rightarrow> m) ++ b"

definition empty_skills :: skills where
  "empty_skills =
     \<lparr>operating_systems = None, programming_languages = None,
      areas_of_expertise = None, tools_and_technologies = None\<rparr>"

definition or_else :: "'a option \<Rightarrow> 'a option \<Rightarrow> 'a option" where
  "or_else b a = (case b of Some v \<Rightarrow> Some v | None \<Rightarrow> a)"

definition spread_skills :: "skills \<Rightarrow> skills \<Rightarrow> skills" where
  "spread_skills a b =
     \<lparr>operating_systems = or_else (operating_systems b) (operating_systems a),
      programming_languages = or_else (programming_languages b) (programming_languages a),
      areas_of_expertise = or_else (areas_of_expertise b) (areas_of_expertise a),
      tools_and_technologies = or_else (tools_and_technologies b) (tools_and_technologies a)\<rparr>"

definition merge_contact :: "ProfileData \<Rightarrow> ProfileData \<Rightarrow> ProfileData" where
  "merge_contact mergedProfile extractedData =
     (case contact extractedData of
        None \<Rightarrow> mergedProfile
      | Some extracted \<Rightarrow>
          let existingContacts = (case contact mergedProfile of Some c \<Rightarrow> c | None \<Rightarrow> []);
              newContacts = filter (\<lambda>c. c \<notin> set existingContacts) extracted
          in mergedProfile\<lparr>contact := Some (existingContacts @ newContacts)\<rparr>)"

definition merge_languages :: "ProfileData \<Rightarrow> ProfileData \<Rightarrow> ProfileData" where
  "merge_languages mergedProfile extractedData =
     (case languages extractedData of
        None \<Rightarrow> mergedProfile
      | Some extracted \<Rightarrow>
          let existingLanguages = (case languages mergedProfile of Some l \<Rightarrow> l | None \<Rightarrow> []);
              existingLanguageNames = map (\<lambda>lang. toLowerCase (lang_name lang)) existingLanguages;
              newLanguages =
                filter (\<lambda>lang. toLowerCase (lang_name lang) \<notin> set existingLanguageNames) extracted
          in mergedProfile\<lparr>languages := Some (existingLanguages @ newLanguages)\<rparr>)"

definition merge_education :: "ProfileData \<Rightarrow> ProfileData \<Rightarrow> ProfileData" where
  "merge_education mergedProfile extractedData =
     (case superior_education extractedData of
        None \<Rightarrow> mergedProfile
      | Some extracted \<Rightarrow>
          mergedProfile\<lparr>superior_education :=
            Some (spread_dict (superior_education mergedProfile) extracted)\<rparr>)"

definition merge_certifications :: "ProfileData \<Rightarrow> ProfileData \<Rightarrow> ProfileData" where
  "merge_certifications mergedProfile extractedData =
     (case certifications extractedData of
        None \<Rightarrow> mergedProfile
      | Some extracted \<Rightarrow>
          mergedProfile\<lparr>certifications :=
            Some (spread_dict (certifications mergedProfile) extracted)\<rparr>)"

definition merge_skills :: "ProfileData \<Rightarrow> ProfileData \<Rightarrow> ProfileData" where
  "merge_skills mergedProfile extractedData =
     (case technical_skills extractedData of
        None \<Rightarrow> mergedProfile
      | Some extracted \<Rightarrow>
          let existingSkills =
                (case technical_skills mergedProfile of Some s \<Rightarrow> s | None \<Rightarrow> empty_skills)
          in mergedProfile\<lparr>technical_skills := Some (spread_skills existingSkills extracted)\<rparr>)"

text \<open>
  The five \<open>if\<close> blocks of \<open>mergeProfileData\<close>, in the order of the source, each on the
  record the previous one left.
\<close>

definition mergeProfileData :: "ProfileData \<Rightarrow> ProfileData \<Rightarrow> ProfileData" where
  "mergeProfileData currentProfile extractedData =
     merge_skills
       (merge_certifications
         (merge_education
           (merge_languages
             (merge_contact currentProfile extractedData) extractedData)
           extractedData)
         extractedData)
       extractedData"

section \<open>Key derivation\<close>

definition is_key_char :: "char \<Rightarrow> bool" where
  "is_key_char c = (in_range CHR ''a'' CHR ''z'' c \<or> in_range CHR ''0'' CHR ''9'' c)"

text \<open>\<open>name.toLowerCase().replace(/[^a-z0-9]/g, '_')\<close>, the key of a certificate or project.\<close>

definition certKey :: "string \<Rightarrow> string" where
  "certKey certName =
     map (\<lambda>c. if is_key_char c then c else CHR ''_'') (toLowerCase certName)"

text \<open>
  The derivation as the specification words it: lower-case, then every maximal run of
  characters that are not alphanumeric becomes one separator.
\<close>

fun collapse_runs :: "bool \<Rightarrow> string \<Rightarrow> string" where
  "collapse_runs in_run [] = []"
| "collapse_runs in_run (c # cs) =
     (if is_key_char c then c # collapse_runs False cs
      else if in_run then collapse_runs True cs
      else CHR ''_'' # collapse_runs True cs)"

definition deriveKey_spec :: "string \<Rightarrow> string" where
  "deriveKey_spec n = collapse_runs False (toLowerCase n)"

section \<open>parseExtractedText\<close>

subsection \<open>Contact\<close>

text \<open>\<open>/[\w\.-]+@[\w\.-]+\.\w+/g\<close>\<close>

definition emailRegex :: rx where
  "emailRegex =
     seqs [Plus (Cls False (\<lambda>c. is_word c \<or> c = CHR ''.'' \<or> c = CHR ''-'')),
           Chr CHR ''@'',
           Plus (Cls False (\<lambda>c. is_word c \<or> c = CHR ''.'' \<or> c = CHR ''-'')),
           Chr CHR ''.'',
           Plus (Cls False is_word)]"

text \<open>\<open>/(?:\+?[1-9]\d{1,14}|\(\d{3}\)\s?\d{3}-?\d{4}|\d{3}[-.]?\d{3}[-.]?\d{4})/g\<close>\<close>

definition phoneRegex :: rx where
  "phoneRegex =
     alts [seqs [Opt (Chr CHR ''+''), Cls False (in_range CHR ''1'' CHR ''9''),
                 Rep 1 14 (Cls False is_digit)],
           seqs [Chr CHR ''('', Exactly 3 (Cls False is_digit), Chr CHR '')'',
                 Opt (Cls False is_space), Exactly 3 (Cls False is_digit),
                 Opt (Chr CHR ''-''), Exactly 4 (Cls False is_digit)],
           seqs [Exactly 3 (Cls False is_digit),
                 Opt (Cls False (\<lambda>c. c = CHR ''-'' \<or> c = CHR ''.'')),
                 Exactly 3 (Cls False is_digit),
                 Opt (Cls False (\<lambda>c. c = CHR ''-'' \<or> c = CHR ''.'')),
                 Exactly 4 (Cls False is_digit)]]"

text \<open>\<open>/^(19|20)\d{2}$/\<close>\<close>

definition yearRegex :: rx where
  "yearRegex = seqs [Bol, Alt (Lit ''19'') (Lit ''20''), Exactly 2 (Cls False is_digit), Eol]"

text \<open>\<open>/https?:\/\/[^\s]+/g\<close>\<close>

definition urlRegex :: rx where
  "urlRegex = seqs [Lit ''http'', Opt (Chr CHR ''s''), Lit ''://'', Plus (Cls True is_space)]"

text \<open>\<open>/linkedin\.com\/in\/[\w-]+/g\<close>\<close>

definition linkedinRegex :: rx where
  "linkedinRegex =
     seqs [Lit ''linkedin.com/in/'', Plus (Cls False (\<lambda>c. is_word c \<or> c = CHR ''-''))]"

text \<open>\<open>/github\.com\/[\w-]+/g\<close>\<close>

definition githubRegex :: rx where
  "githubRegex =
     seqs [Lit ''github.com/'', Plus (Cls False (\<lambda>c. is_word c \<or> c = CHR ''-''))]"

definition emails :: "string \<Rightarrow> string list" where
  "emails text = rx_match_all False emailRegex text"

definition potentialPhones :: "string \<Rightarrow> string list" where
  "potentialPhones text = rx_match_all False phoneRegex text"

text \<open>The filter on the phone matches; \<open>num.replace(/\D/g, '')\<close> keeps the digits.\<close>

definition phone_ok :: "string \<Rightarrow> bool" where
  "phone_ok num =
     (let digits = filter is_digit num
      in length digits \<ge> 10 \<and> length digits \<le> 15 \<and>
         \<not> rx_test False yearRegex digits \<and>
         \<not> (length digits = 2 \<or> length digits = 4))"

definition phones :: "string \<Rightarrow> string list" where
  "phones text = filter phone_ok (potentialPhones text)"

definition urls :: "string \<Rightarrow> string list" where
  "urls text = rx_match_all False urlRegex text"

definition linkedinProfiles :: "string \<Rightarrow> string list" where
  "linkedinProfiles text = rx_match_all False linkedinRegex text"

definition githubProfiles :: "string \<Rightarrow> string list" where
  "githubProfiles text = rx_match_all False githubRegex text"

text \<open>\<open>arr.indexOf(item)\<close>: the first index of the item, -1 without one.\<close>

fun indexOf :: "'a list \<Rightarrow> 'a \<Rightarrow> int" where
  "indexOf [] item = - 1"
| "indexOf (x # xs) item =
     (if x = item then 0
      else (let r = indexOf xs item in if r < 0 then - 1 else r + 1))"

text \<open>\<open>arr.filter((item, index, arr) => arr.indexOf(item) === index)\<close>\<close>

definition filter_first_index :: "'a list \<Rightarrow> 'a list" where
  "filter_first_index arr =
     map snd (filter (\<lambda>(index, item). indexOf arr item = int index) (enumerate 0 arr))"

text \<open>The array that \<open>contactInfo\<close> is filtered from.\<close>

definition contact_matches :: "string \<Rightarrow> string list" where
  "contact_matches text =
     emails text @ phones text @ urls text @
     map (\<lambda>profile. ''https://'' @ profile) (linkedinProfiles text) @
     map (\<lambda>profile. ''https://'' @ profile) (githubProfiles text)"

definition contactInfo :: "string \<Rightarrow> string list" where
  "contactInfo text = filter_first_index (contact_matches text)"

text \<open>
  The same list as the specification words it: the concatenated matches, each string kept
  where it occurs first. \<open>seen\<close> holds the strings already kept.
\<close>

fun first_occurrences :: "'a list \<Rightarrow> 'a list \<Rightarrow> 'a list" where
  "first_occurrences seen [] = []"
| "first_occurrences seen (x # xs) =
     (if x \<in> set seen then first_occurrences seen xs
      else x # first_occurrences (seen @ [x]) xs)"

text \<open>A string of four digits that reads as a year from 1900 to 2099.\<close>

definition year_token :: "string \<Rightarrow> bool" where
  "year_token s =
     (length s = 4 \<and> list_all is_digit s \<and> (take 2 s = ''19'' \<or> take 2 s = ''20''))"

subsection \<open>Education\<close>

definition c_cedilla :: char where
  "c_cedilla = CHR 0xE7"

definition a_tilde :: char where
  "a_tilde = CHR 0xE3"

definition o_tilde :: char where
  "o_tilde = CHR 0xF5"

definition e_circumflex :: char where
  "e_circumflex = CHR 0xEA"

definition educationData :: "string \<Rightarrow> (string \<times> json) list" where
  "educationData textLower =
     (if str_includes textLower (''engenharia da computa'' @ [c_cedilla, a_tilde] @ ''o'') \<and>
         str_includes textLower ''universidade de pernambuco''
      then [(''computer_engineering_upe'',
             JObj [(''degree'', JStr ''Bachelor of Engineering''),
                   (''field'', JStr ''Computer Engineering''),
                   (''institution'', JStr ''Universidade de Pernambuco (UPE)''),
                   (''location'', JStr ''Recife, Pernambuco, Brasil''),
                   (''start_date'', JStr ''April 2024''),
                   (''end_date'', JStr ''December 2028''),
                   (''status'', JStr ''in_progress''),
                   (''extracted_from_pdf'', JBool True)])]
      else [])"

subsection \<open>Certifications: the line scan\<close>

definition certificationKeywords :: "string list" where
  "certificationKeywords =
     [''certification'', ''certificate'', ''certified'', ''course'', ''training'',
      ''certifica'' @ [c_cedilla, a_tilde] @ ''o'', ''certificado'', ''curso'', ''treinamento'']"

definition certificationProviders :: "string list" where
  "certificationProviders =
     [''aws'', ''microsoft'', ''google'', ''oracle'', ''cisco'', ''comptia'',
      ''coursera'', ''udemy'', ''edx'', ''linkedin learning'', ''pluralsight'',
      ''figma'', ''adobe'', ''salesforce'', ''vmware'', ''red hat'']"

text \<open>The eight \<open>unwantedPatterns\<close>, all with the \<open>i\<close> flag, in the order of the source.\<close>

definition unwantedPatterns :: "rx list" where
  "unwantedPatterns =
     [seqs [Bol, Lit ''page'', Plus (Cls False is_space), Plus (Cls False is_digit),
            Plus (Cls False is_space), Lit ''of'', Plus (Cls False is_space),
            Plus (Cls False is_digit), Eol],
      seqs [Bol, Lit ''certification'', Opt (Chr CHR ''s''), Eol],
      seqs [Bol, Lit ''certifica'', Chr c_cedilla, Chr o_tilde, Chr CHR ''e'',
            Opt (Chr CHR ''s''), Eol],
      seqs [Bol, Plus (Cls False is_digit), Star (Cls False is_space),
            Alt (seqs [Lit ''month'', Opt (Chr CHR ''s'')])
                (seqs [Lit ''mese'', Opt (Chr CHR ''s'')]),
            Eol],
      seqs [Bol, Lit ''language'', Opt (Chr CHR ''s''), Eol],
      seqs [Bol, Lit ''idioma'', Opt (Chr CHR ''s''), Eol],
      seqs [Bol, Lit ''contato'', Eol],
      seqs [Bol, Lit ''principais'', Plus (Cls False is_space),
            Lit ''compet'', Chr e_circumflex, Lit ''ncias'', Eol]]"

text \<open>\<open>/^[A-Z][a-z]+\s+[A-Z][a-z]+$/\<close>, the name pattern.\<close>

definition namePattern :: rx where
  "namePattern =
     seqs [Bol, Cls False is_upper, Plus (Cls False is_lower), Plus (Cls False is_space),
           Cls False is_upper, Plus (Cls False is_lower), Eol]"

text \<open>\<open>/[a-z]+\s*\d+/i\<close>\<close>

definition coursePattern :: rx where
  "coursePattern =
     seqs [Plus (Cls False is_lower), Star (Cls False is_space), Plus (Cls False is_digit)]"

text \<open>\<open>/^[A-Z][a-z]+(?:\s+[A-Z][a-z]*)*.*$/\<close>\<close>

definition titleCasePattern :: rx where
  "titleCasePattern =
     seqs [Bol, Cls False is_upper, Plus (Cls False is_lower),
           Star (seqs [Plus (Cls False is_space), Cls False is_upper, Star (Cls False is_lower)]),
           Star (Cls False is_dot), Eol]"

text \<open>\<open>/^\d+$/\<close>, \<open>/^[a-z\s]+$/\<close> and \<open>/^[a-z]/\<close>\<close>

definition onlyDigitsPattern :: rx where
  "onlyDigitsPattern = seqs [Bol, Plus (Cls False is_digit), Eol]"

definition allLowerPattern :: rx where
  "allLowerPattern = seqs [Bol, Plus (Cls False (\<lambda>c. is_lower c \<or> is_space c)), Eol]"

definition lowerStartPattern :: rx where
  "lowerStartPattern = seqs [Bol, Cls False is_lower]"

text \<open>\<open>/^(certificat(e|ion|ed)|course|training):\s*/i\<close>\<close>

definition labelPattern :: rx where
  "labelPattern =
     seqs [Bol,
           alts [seqs [Lit ''certificat'', alts [Lit ''e'', Lit ''ion'', Lit ''ed'']],
                 Lit ''course'', Lit ''training''],
           Chr CHR '':'', Star (Cls False is_space)]"

text \<open>The entry stored for a certificate.\<close>

definition cert_entry :: "string \<Rightarrow> json" where
  "cert_entry certName =
     JObj [(''name'', JStr certName), (''type'', JStr ''course_completion''),
           (''extracted_from_pdf'', JBool True)]"

text \<open>
  \<open>certifications\<close> is an object literal: its own properties are kept as a list, in the
  order they were added. \<open>certifications[certKey]\<close> is truthy for an own property (the
  values are objects) and for the two keys over \<open>a-z0-9_\<close> that every object inherits.
\<close>

definition truthy_at :: "(string \<times> json) list \<Rightarrow> string \<Rightarrow> bool" where
  "truthy_at obj key =
     (key \<in> set (map fst obj) \<or> key = ''constructor'' \<or> key = ''__proto__'')"

text \<open>\<open>if (!certifications[certKey]) certifications[certKey] = {...}\<close>\<close>

definition add_cert :: "(string \<times> json) list \<Rightarrow> string \<Rightarrow> (string \<times> json) list" where
  "add_cert obj certName =
     (let key = certKey certName
      in if \<not> truthy_at obj key then obj @ [(key, cert_entry certName)] else obj)"

text \<open>
  What the callback of \<open>lines.forEach\<close> reads and writes: the array \<open>lines\<close> (the
  callback blanks the entry after the current one), \<open>inCertSection\<close> and the object
  \<open>certifications\<close>.
\<close>

record scan_state =
  lines :: "string list"
  inCertSection :: bool
  found :: "(string \<times> json) list"

text \<open>The exit test of the certification section.\<close>

definition exit_signal :: "string \<Rightarrow> string \<Rightarrow> bool" where
  "exit_signal lowerLine originalLine =
     (str_includes lowerLine ''experience'' \<or>
      str_includes lowerLine (''experi'' @ [e_circumflex] @ ''ncia'') \<or>
      str_includes lowerLine ''education'' \<or>
      str_includes lowerLine (''forma'' @ [c_cedilla, a_tilde] @ ''o'') \<or>
      str_includes lowerLine ''gabriel borges'' \<or>
      rx_test False namePattern originalLine)"

text \<open>
  The test that makes a line a candidate: \<open>hasCertKeyword || hasProvider ||
  (hasCoursePattern && isTitleCase) || contextualMatch\<close>, with \<open>inCert\<close> the section
  flag after the exit test.
\<close>

definition is_candidate :: "bool \<Rightarrow> string \<Rightarrow> string \<Rightarrow> bool" where
  "is_candidate inCert lowerLine originalLine =
     (let hasCertKeyword = list_ex (\<lambda>keyword. str_includes lowerLine keyword) certificationKeywords;
          hasProvider = list_ex (\<lambda>provider. str_includes lowerLine provider) certificationProviders;
          hasCoursePattern = rx_test True coursePattern lowerLine;
          isTitleCase = rx_test False titleCasePattern originalLine;
          contextualMatch = (inCert \<and> length originalLine > 3 \<and>
                             \<not> rx_test False onlyDigitsPattern originalLine \<and>
                             \<not> rx_test False allLowerPattern originalLine)
      in hasCertKeyword \<or> hasProvider \<or> (hasCoursePattern \<and> isTitleCase) \<or> contextualMatch)"

text \<open>
  The look-ahead: the name of the candidate and the array after it. The next line is
  appended and blanked when it is not empty, shorter than 15, and starts with a lower-case
  letter or is \<open>Science\<close>.
\<close>

definition lookahead :: "string list \<Rightarrow> nat \<Rightarrow> string \<Rightarrow> string \<times> string list" where
  "lookahead ls index certName =
     (if index + 1 < length ls
      then (let nextLine = trim (ls ! (index + 1))
            in if length nextLine > 0 \<and> length nextLine < 15 \<and>
                  (rx_test False lowerStartPattern nextLine \<or> nextLine = ''Science'')
               then (certName @ '' '' @ nextLine, ls[index + 1 := []])
               else (certName, ls))
      else (certName, ls))"

definition isGeneric :: "string \<Rightarrow> bool" where
  "isGeneric certName =
     (toLowerCase certName \<in> set certificationKeywords \<or>
      toLowerCase certName = ''certifications'' \<or>
      toLowerCase certName = ''certifica'' @ [c_cedilla, o_tilde] @ ''es'' \<or>
      toLowerCase certName = ''science'')"

text \<open>The callback of \<open>lines.forEach\<close> at one index; a \<open>return\<close> leaves the state.\<close>

definition scan_line :: "nat \<Rightarrow> scan_state \<Rightarrow> scan_state" where
  "scan_line index st =
     (let line = lines st ! index;
          lowerLine = trim (toLowerCase line);
          originalLine = trim line
      in if length lowerLine < 3 then st
         else if str_includes lowerLine ''certification'' \<or>
                 str_includes lowerLine (''certifica'' @ [c_cedilla, a_tilde] @ ''o'')
         then st\<lparr>inCertSection := True\<rparr>
         else
           (let st1 = (if inCertSection st \<and> exit_signal lowerLine originalLine
                       then st\<lparr>inCertSection := False\<rparr> else st)
            in if list_ex (\<lambda>pattern. rx_test True pattern originalLine) unwantedPatterns then st1
               else if is_candidate (inCertSection st1) lowerLine originalLine
               then (let (merged, ls) = lookahead (lines st1) index originalLine;
                         certName = rx_remove_first True labelPattern merged;
                         st2 = st1\<lparr>lines := ls\<rparr>
                     in if length certName > 3 \<and> \<not> isGeneric certName
                        then st2\<lparr>found := add_cert (found st2) certName\<rparr>
                        else st2)
               else st1))"

text \<open>\<open>lines.forEach\<close>: the callback at every index of \<open>text.split('\n')\<close>, in order.\<close>

definition scan_lines :: "string list \<Rightarrow> scan_state" where
  "scan_lines ls =
     foldl (\<lambda>st index. scan_line index st)
       \<lparr>lines = ls, inCertSection = False, found = []\<rparr> [0 ..< length ls]"

text \<open>
  The line at \<open>index\<close> is classified as a candidate: the callback gets past its three
  \<open>return\<close>s and the test of the candidate holds, with the section flag as the exit
  test leaves it.
\<close>

definition candidate_at :: "scan_state \<Rightarrow> nat \<Rightarrow> bool" where
  "candidate_at st index =
     (let line = lines st ! index;
          lowerLine = trim (toLowerCase line);
          originalLine = trim line
      in \<not> length lowerLine < 3 \<and>
         \<not> (str_includes lowerLine ''certification'' \<or>
            str_includes lowerLine (''certifica'' @ [c_cedilla, a_tilde] @ ''o'')) \<and>
         \<not> list_ex (\<lambda>pattern. rx_test True pattern originalLine) unwantedPatterns \<and>
         is_candidate (inCertSection st \<and> \<not> exit_signal lowerLine originalLine)
           lowerLine originalLine)"

text \<open>
  A trimmed line that continues the name before it: not empty, shorter than 15, and
  starting with a lower-case letter or equal to \<open>Science\<close>.
\<close>

definition continuation :: "string \<Rightarrow> bool" where
  "continuation nextLine =
     (length nextLine > 0 \<and> length nextLine < 15 \<and>
      (rx_test False lowerStartPattern nextLine \<or> nextLine = ''Science''))"

subsection \<open>Certifications: the block pattern\<close>

text \<open>
  \<open>/certifica[tc][oo]es?[\s:]*([^\n]+(?:\n[^\n]+)*?)(?=\n\s*\n|\n[A-Z]|$)/gi\<close>, where the
  first class is \<open>t\<close> or c with cedilla and the second is o with tilde or \<open>o\<close>.
\<close>

definition certSectionRegex :: rx where
  "certSectionRegex =
     seqs [Lit ''certifica'',
           Cls False (\<lambda>c. c = CHR ''t'' \<or> c = c_cedilla),
           Cls False (\<lambda>c. c = o_tilde \<or> c = CHR ''o''),
           Chr CHR ''e'', Opt (Chr CHR ''s''),
           Star (Cls False (\<lambda>c. is_space c \<or> c = CHR '':'')),
           Plus (Cls True (\<lambda>c. c = newline)),
           LazyStar (seqs [Chr newline, Plus (Cls True (\<lambda>c. c = newline))]),
           Look (alts [seqs [Chr newline, Star (Cls False is_space), Chr newline],
                       seqs [Chr newline, Cls False is_upper],
                       Eol])]"

text \<open>\<open>section.split('\n').slice(1)\<close>, and every line of it longer than 3 after \<open>trim\<close>.\<close>

definition add_section :: "(string \<times> json) list \<Rightarrow> string \<Rightarrow> (string \<times> json) list" where
  "add_section obj section =
     foldl (\<lambda>acc line.
              let cleanLine = trim line
              in if length cleanLine > 3 then add_cert acc cleanLine else acc)
       obj (tl (split_on newline section))"

definition certifications_of :: "string \<Rightarrow> (string \<times> json) list" where
  "certifications_of text =
     foldl add_section (found (scan_lines (split_on newline text)))
       (rx_match_all True certSectionRegex text)"

subsection \<open>Languages and skills\<close>

definition programmingLanguages :: "string list" where
  "programmingLanguages =
     [''javascript'', ''python'', ''java'', ''c++'', ''c#'', ''ruby'', ''go'', ''rust'',
      ''typescript'', ''php'', ''swift'', ''kotlin'', ''scala'', ''r'', ''matlab'',
      ''html'', ''css'', ''sql'', ''bash'', ''shell'']"

definition foundLanguages :: "string \<Rightarrow> string list" where
  "foundLanguages textLower =
     map capitalize (filter (\<lambda>lang. str_includes textLower lang) programmingLanguages)"

definition skillsKeywords :: "string list" where
  "skillsKeywords =
     [''docker'', ''kubernetes'', ''aws'', ''azure'', ''gcp'', ''linux'', ''windows'',
      ''git'', ''jenkins'', ''terraform'', ''ansible'', ''mongodb'', ''postgresql'',
      ''mysql'', ''redis'', ''elasticsearch'', ''nginx'', ''apache'']"

definition foundSkills :: "string \<Rightarrow> string list" where
  "foundSkills textLower =
     map capitalize (filter (\<lambda>skill. str_includes textLower skill) skillsKeywords)"

subsection \<open>The fragment\<close>

text \<open>A field is set when its list or object is not empty, and absent otherwise.\<close>

definition parseExtractedText :: "string \<Rightarrow> ProfileData" where
  "parseExtractedText text =
     (let textLower = toLowerCase text
      in empty_profile
          \<lparr>contact := (if length (contactInfo text) > 0 then Some (contactInfo text) else None),
           superior_education :=
             (if length (educationData textLower) > 0
              then Some (map_of (educationData textLower)) else None),
           certifications :=
             (if length (certifications_of text) > 0
              then Some (map_of (certifications_of text)) else None),
           languages :=
             (if length (foundLanguages textLower) > 0
              then Some (map (\<lambda>lang. \<lparr>lang_name = lang, lang_proficiency = ''intermediate'',
                                       lang_context = Some ''Extracted from PDF''\<rparr>)
                             (foundLanguages textLower))
              else None),
           technical_skills :=
             (if length (foundSkills textLower) > 0
              then Some (empty_skills\<lparr>tools_and_technologies := Some (foundSkills textLower)\<rparr>)
              else None)\<rparr>)"

section \<open>The language of a pattern\<close>

text \<open>
  The strings that a pattern can consume, for the proofs about what a match looks like.
  The anchors and the lookahead consume nothing.
\<close>

inductive_set star :: "string set \<Rightarrow> string set" for A :: "string set" where
  star_nil: "[] \<in> star A"
| star_step: "u \<in> A \<Longrightarrow> v \<in> star A \<Longrightarrow> u @ v \<in> star A"

fun rx_lang :: "bool \<Rightarrow> rx \<Rightarrow> string set" where
  "rx_lang ci Eps = {[]}"
| "rx_lang ci (Cls neg P) = {[c] | c. cls_match ci neg P c}"
| "rx_lang ci (Seq a b) = {u @ v | u v. u \<in> rx_lang ci a \<and> v \<in> rx_lang ci b}"
| "rx_lang ci (Alt a b) = rx_lang ci a \<union> rx_lang ci b"
| "rx_lang ci (Star a) = star (rx_lang ci a)"
| "rx_lang ci (LazyStar a) = star (rx_lang ci a)"
| "rx_lang ci Bol = {[]}"
| "rx_lang ci Eol = {[]}"
| "rx_lang ci (Look a) = {[]}"

section \<open>saveProfile\<close>









section \<open>Properties of mergeProfileData\<close>

lemma spread_dict_idem: "spread_dict (Some (spread_dict a b)) b = spread_dict a b"
  by (rule ext) (simp add: spread_dict_def map_add_def split: option.splits)

lemma spread_skills_idem: "spread_skills (spread_skills a b) b = spread_skills a b"
  by (simp add: spread_skills_def or_else_def split: option.splits)

lemma filter_seen_twice:
  "filter (\<lambda>x. f x \<notin> f ` (set xs \<union> {y \<in> set ys. f y \<notin> f ` set xs})) ys = []"
  by (auto simp: filter_empty_conv)

lemma filter_seen_twice_id:
  "filter (\<lambda>x. x \<notin> set xs \<and> (x \<in> set ys \<longrightarrow> x \<in> set xs)) ys = []"
  by (auto simp: filter_empty_conv)

lemmas merge_defs =
  mergeProfileData_def merge_contact_def merge_languages_def merge_education_def
  merge_certifications_def merge_skills_def

lemma certifications_merge:
  "certifications (mergeProfileData c e) =
     (case certifications e of
        None \<Rightarrow> certifications c
      | Some inc \<Rightarrow> Some (spread_dict (certifications c) inc))"
  by (simp add: merge_defs Let_def split: option.splits)

lemma education_merge:
  "superior_education (mergeProfileData c e) =
     (case superior_education e of
        None \<Rightarrow> superior_education c
      | Some inc \<Rightarrow> Some (spread_dict (superior_education c) inc))"
  by (simp add: merge_defs Let_def split: option.splits)

lemma spread_dict_apply:
  "spread_dict a b k =
     (case b k of Some v \<Rightarrow> Some v | None \<Rightarrow> (case a of None \<Rightarrow> None | Some c \<Rightarrow> c k))"
  by (simp add: spread_dict_def map_add_def split: option.splits)

text \<open>
  C1, as the code has it. The claim says that an entry of the current record wins over
  an incoming entry with the same key. The spread puts the fragment's map last, so in
  the merged certifications map (and in the merged education map) every key of the
  fragment's map holds the fragment's entry, whole, and a key that the fragment's map
  does not have holds what the current record had for it.
\<close>

theorem merge_dict_incoming_wins:
  "(certifications extractedData = Some incoming \<longrightarrow>
      (\<exists>m. certifications (mergeProfileData currentProfile extractedData) = Some m \<and>
           (\<forall>k. m k = (case incoming k of
                          Some v \<Rightarrow> Some v
                        | None \<Rightarrow> (case certifications currentProfile of
                                     None \<Rightarrow> None | Some c \<Rightarrow> c k))))) \<and>
   (superior_education extractedData = Some incoming' \<longrightarrow>
      (\<exists>m. superior_education (mergeProfileData currentProfile extractedData) = Some m \<and>
           (\<forall>k. m k = (case incoming' k of
                          Some v \<Rightarrow> Some v
                        | None \<Rightarrow> (case superior_education currentProfile of
                                     None \<Rightarrow> None | Some c \<Rightarrow> c k)))))"
  by (simp add: certifications_merge education_merge spread_dict_apply)

theorem merge_dict_incoming_wins_witness:
  "certifications
     (mergeProfileData
        (empty_profile\<lparr>certifications :=
           Some [''aws_certified'' \<mapsto> JObj [(''name'', JStr ''AWS Certified (curated)'')],
                 ''other'' \<mapsto> JNull]\<rparr>)
        (empty_profile\<lparr>certifications :=
           Some [''aws_certified'' \<mapsto> JObj [(''name'', JStr ''aws certified'')]]\<rparr>))
   = Some [''aws_certified'' \<mapsto> JObj [(''name'', JStr ''aws certified'')],
           ''other'' \<mapsto> JNull]"
proof -
  let ?cur = "empty_profile\<lparr>certifications :=
           Some [''aws_certified'' \<mapsto> JObj [(''name'', JStr ''AWS Certified (curated)'')],
                 ''other'' \<mapsto> JNull]\<rparr>"
  let ?inc = "[''aws_certified'' \<mapsto> JObj [(''name'', JStr ''aws certified'')]]"
  let ?ext = "empty_profile\<lparr>certifications := Some ?inc\<rparr>"
  have h: "certifications ?ext = Some ?inc" by simp
  from merge_dict_incoming_wins [of ?ext ?inc ?cur] h
  obtain m where m: "certifications (mergeProfileData ?cur ?ext) = Some m"
    and k: "\<forall>k. m k = (case ?inc k of Some v \<Rightarrow> Some v
                | None \<Rightarrow> (case certifications ?cur of None \<Rightarrow> None | Some c \<Rightarrow> c k))"
    by blast
  have "m = [''aws_certified'' \<mapsto> JObj [(''name'', JStr ''aws certified'')],
             ''other'' \<mapsto> JNull]"
    by (rule ext) (simp add: k)
  with m show ?thesis by simp
qed

text \<open>
  C1, as the claim states it, fails: the curated entry under \<open>aws_certified\<close> is
  replaced by the incoming entry of the same key.
\<close>

theorem merge_existing_entry_counterexample:
  "the (certifications
     (mergeProfileData
        (empty_profile\<lparr>certifications :=
           Some [''aws_certified'' \<mapsto> JObj [(''name'', JStr ''AWS Certified (curated)'')]]\<rparr>)
        (empty_profile\<lparr>certifications :=
           Some [''aws_certified'' \<mapsto> JObj [(''name'', JStr ''aws certified'')]]\<rparr>)))
     ''aws_certified''
   = Some (JObj [(''name'', JStr ''aws certified'')]) \<and>
   JObj [(''name'', JStr ''aws certified'')] \<noteq> JObj [(''name'', JStr ''AWS Certified (curated)'')]"
  by (simp add: merge_defs Let_def spread_dict_def empty_profile_def)

text \<open>
  C2: merging a fragment into the result of merging the same fragment gives that result
  again, for every record and every fragment, on every field.
\<close>

theorem merge_idempotent:
  "mergeProfileData (mergeProfileData R F) F = mergeProfileData R F"
  by (cases "contact F"; cases "languages F"; cases "superior_education F";
      cases "certifications F"; cases "technical_skills F")
     (simp_all add: merge_defs Let_def
        filter_seen_twice filter_seen_twice_id spread_dict_idem spread_skills_idem
        split: option.splits)

text \<open>
  C9: the merge leaves name, facts, projects, professional_experience,
  academical_research, memberships and github_stats as the current record has them,
  whatever the fragment carries in these fields.
\<close>

theorem merge_frame:
  "name (mergeProfileData currentProfile extractedData) = name currentProfile \<and>
   facts (mergeProfileData currentProfile extractedData) = facts currentProfile \<and>
   projects (mergeProfileData currentProfile extractedData) = projects currentProfile \<and>
   professional_experience (mergeProfileData currentProfile extractedData)
     = professional_experience currentProfile \<and>
   academical_research (mergeProfileData currentProfile extractedData)
     = academical_research currentProfile \<and>
   memberships (mergeProfileData currentProfile extractedData) = memberships currentProfile \<and>
   github_stats (mergeProfileData currentProfile extractedData) = github_stats currentProfile"
  by (simp add: merge_defs Let_def split: option.splits)

section \<open>Properties of the key derivation\<close>

lemma code_char_of: "0 \<le> n \<Longrightarrow> n < 256 \<Longrightarrow> code (char_of n) = n"
  by (simp add: code_def)

lemma toLowerCase_char_idem: "toLowerCase_char (toLowerCase_char c) = toLowerCase_char c"
  by (auto simp: toLowerCase_char_def Let_def code_char_of)

lemma certKey_nth:
  "i < length (toLowerCase n) \<Longrightarrow> certKey n ! i =
     (if is_key_char (toLowerCase n ! i) then toLowerCase n ! i else CHR ''_'')"
  by (simp add: certKey_def)

text \<open>
  C3, as the code has it. The key is a function of the name alone. It is read off the
  lower-cased name, position by position: the key has as many characters as the
  lower-cased name, and at every position it has the character of the lower-cased name
  when that is in \<open>a-z0-9\<close> and one underscore otherwise, so that a run of n other
  characters gives n underscores. A name and its lower-cased form have the same key.
  "AWS Certified!" has the key \<open>aws_certified_\<close>, "aws certified" the key
  \<open>aws_certified\<close>, and "a  b", with two spaces, the key \<open>a__b\<close>.
\<close>

theorem certKey_per_character:
  "length (certKey n) = length (toLowerCase n) \<and>
   (\<forall>i < length (toLowerCase n). certKey n ! i =
      (if is_key_char (toLowerCase n ! i) then toLowerCase n ! i else CHR ''_'')) \<and>
   certKey (toLowerCase n) = certKey n \<and>
   certKey ''AWS Certified!'' = ''aws_certified_'' \<and>
   certKey ''aws certified'' = ''aws_certified'' \<and>
   certKey ''a  b'' = ''a__b''"
proof -
  have len: "length (certKey n) = length (toLowerCase n)"
    by (simp add: certKey_def)
  have idem: "certKey (toLowerCase n) = certKey n"
    by (simp add: certKey_def toLowerCase_def toLowerCase_char_idem)
  have a: "certKey ''AWS Certified!'' = ''aws_certified_''" by code_simp
  have b: "certKey ''aws certified'' = ''aws_certified''" by code_simp
  have c: "certKey ''a  b'' = ''a__b''" by code_simp
  from len idem a b c certKey_nth show ?thesis by blast
qed

theorem certKey_per_character_witness:
  "(2::nat) < length (toLowerCase ''A  b'') \<and> certKey ''A  b'' ! 2 = CHR ''_'' \<and>
   length (certKey ''A  b'') = 4"
proof -
  have h: "(2::nat) < length (toLowerCase ''A  b'')" by code_simp
  have l4: "length (toLowerCase ''A  b'') = 4" by code_simp
  from certKey_per_character [of "''A  b''"]
  have "\<forall>i < length (toLowerCase ''A  b''). certKey ''A  b'' ! i =
      (if is_key_char (toLowerCase ''A  b'' ! i) then toLowerCase ''A  b'' ! i else CHR ''_'')"
    and l: "length (certKey ''A  b'') = length (toLowerCase ''A  b'')"
    by blast+
  with h have "certKey ''A  b'' ! 2 =
      (if is_key_char (toLowerCase ''A  b'' ! 2) then toLowerCase ''A  b'' ! 2 else CHR ''_'')"
    by blast
  moreover have "(if is_key_char (toLowerCase ''A  b'' ! 2)
      then toLowerCase ''A  b'' ! 2 else CHR ''_'') = CHR ''_''"
    by code_simp
  ultimately show ?thesis using h l l4 by simp
qed

text \<open>
  C3, as the claim states it, fails: the two names of the claim get different keys, and
  a run of two spaces gives two separators where the rule of the claim gives one.
\<close>

theorem certKey_collision_counterexample:
  "certKey ''AWS Certified!'' \<noteq> certKey ''aws certified'' \<and>
   certKey ''a  b'' \<noteq> deriveKey_spec ''a  b''"
  by code_simp

section \<open>Properties of saveProfile\<close>



section \<open>Soundness of the matcher\<close>

lemma rx_match_sound:
  "t \<in> set (rx_match ci n r s) \<Longrightarrow> \<exists>u \<in> rx_lang ci r. s = u @ t"
proof (induction ci n r s arbitrary: t rule: rx_match.induct)
  case (1 ci n s)
  then show ?case by simp
next
  case (2 ci n neg P s)
  then show ?case by (auto split: list.splits if_splits)
next
  case (3 ci n a b s)
  from "3.prems" obtain t1 where t1: "t1 \<in> set (rx_match ci n a s)"
    and t: "t \<in> set (rx_match ci n b t1)"
    by auto
  from "3.IH"(1) [OF t1] obtain u1 where u1: "u1 \<in> rx_lang ci a" "s = u1 @ t1" by blast
  from "3.IH"(2) [OF t1 t] obtain u2 where u2: "u2 \<in> rx_lang ci b" "t1 = u2 @ t" by blast
  from u1 u2 have "u1 @ u2 \<in> rx_lang ci (Seq a b)" "s = (u1 @ u2) @ t" by auto
  then show ?case by blast
next
  case (4 ci n a b s)
  then show ?case by fastforce
next
  case (5 ci n a s)
  from "5.prems" have "t \<in> set (concat (map (\<lambda>t. if length t < length s
        then rx_match ci n (Star a) t else []) (rx_match ci n a s)) @ [s])"
    by (simp only: rx_match.simps(5) [of ci n a s])
  then consider "t = s"
    | t1 where "t1 \<in> set (rx_match ci n a s)" "length t1 < length s"
        "t \<in> set (rx_match ci n (Star a) t1)"
    by (auto split: if_splits)
  then show ?case
  proof cases
    case 1
    then show ?thesis by (auto intro: star_nil)
  next
    case 2
    from "5.IH"(1) [OF 2(1)] obtain u1 where u1: "u1 \<in> rx_lang ci a" "s = u1 @ t1" by blast
    from "5.IH"(2) [OF 2(1) 2(2) 2(3)] obtain u2
      where u2: "u2 \<in> rx_lang ci (Star a)" "t1 = u2 @ t" by blast
    from u1 u2 have "u1 @ u2 \<in> rx_lang ci (Star a)" "s = (u1 @ u2) @ t"
      by (auto intro: star_step)
    then show ?thesis by blast
  qed
next
  case (6 ci n a s)
  from "6.prems" have "t \<in> set (s # concat (map (\<lambda>t. if length t < length s
        then rx_match ci n (LazyStar a) t else []) (rx_match ci n a s)))"
    by (simp only: rx_match.simps(6) [of ci n a s])
  then consider "t = s"
    | t1 where "t1 \<in> set (rx_match ci n a s)" "length t1 < length s"
        "t \<in> set (rx_match ci n (LazyStar a) t1)"
    by (auto split: if_splits)
  then show ?case
  proof cases
    case 1
    then show ?thesis by (auto intro: star_nil)
  next
    case 2
    from "6.IH"(1) [OF 2(1)] obtain u1 where u1: "u1 \<in> rx_lang ci a" "s = u1 @ t1" by blast
    from "6.IH"(2) [OF 2(1) 2(2) 2(3)] obtain u2
      where u2: "u2 \<in> rx_lang ci (LazyStar a)" "t1 = u2 @ t" by blast
    from u1 u2 have "u1 @ u2 \<in> rx_lang ci (LazyStar a)" "s = (u1 @ u2) @ t"
      by (auto intro: star_step)
    then show ?thesis by blast
  qed
next
  case (7 ci n s)
  then show ?case by (auto split: if_splits)
next
  case (8 ci n s)
  then show ?case by (auto split: if_splits)
next
  case (9 ci n a s)
  then show ?case by (auto split: if_splits)
qed

lemma rx_match_all_from_sound:
  "x \<in> set (rx_match_all_from ci n r skip s) \<Longrightarrow> x \<in> rx_lang ci r"
proof (induction s arbitrary: skip)
  case Nil
  then have x: "x = []" and ne: "rx_match ci n r [] \<noteq> []" by (auto split: if_splits)
  from ne obtain t where "t \<in> set (rx_match ci n r [])" by (cases "rx_match ci n r []") auto
  from rx_match_sound [OF this] x show ?case by auto
next
  case (Cons c cs)
  note IH = Cons.IH and prems = Cons.prems
  show ?case
  proof (cases "0 < skip")
    case True
    with IH prems show ?thesis by simp
  next
    case False
    show ?thesis
    proof (cases "rx_match ci n r (c # cs)")
      case Nil
      with False IH prems show ?thesis by simp
    next
      case (Cons t ts)
      then have "t \<in> set (rx_match ci n r (c # cs))" by simp
      from rx_match_sound [OF this] obtain u where u: "u \<in> rx_lang ci r" "c # cs = u @ t"
        by blast
      define m where "m = take (length (c # cs) - length t) (c # cs)"
      have eq: "rx_match_all_from ci n r skip (c # cs)
          = m # rx_match_all_from ci n r (length m - 1) cs"
        using False Cons unfolding m_def by (simp add: Let_def)
      have "m = u"
        unfolding m_def by (simp only: u(2)) simp
      with prems eq IH u(1) show ?thesis by auto
    qed
  qed
qed

lemma rx_match_all_sound: "x \<in> set (rx_match_all ci r s) \<Longrightarrow> x \<in> rx_lang ci r"
  unfolding rx_match_all_def by (rule rx_match_all_from_sound)

lemma email_has_at: "x \<in> set (emails text) \<Longrightarrow> CHR ''@'' \<in> set x"
proof -
  assume "x \<in> set (emails text)"
  then have "x \<in> rx_lang False emailRegex"
    unfolding emails_def by (rule rx_match_all_sound)
  then show ?thesis
    by (auto simp: emailRegex_def seqs_def Chr_def cls_match_def)
qed

lemma url_starts_h: "x \<in> set (urls text) \<Longrightarrow> \<exists>v. x = CHR ''h'' # v"
proof -
  assume "x \<in> set (urls text)"
  then have "x \<in> rx_lang False urlRegex"
    unfolding urls_def by (rule rx_match_all_sound)
  then show ?thesis
    by (auto simp: urlRegex_def seqs_def Lit_def Chr_def cls_match_def)
qed

section \<open>Properties of the contact list\<close>

lemma indexOf_notin: "x \<notin> set xs \<Longrightarrow> indexOf xs x = - 1"
  by (induction xs) (auto simp: Let_def)

lemma indexOf_mem:
  "x \<in> set xs \<Longrightarrow> 0 \<le> indexOf xs x \<and> indexOf xs x < int (length xs)"
  by (induction xs) (auto simp: Let_def)

lemma indexOf_append_mem: "x \<in> set xs \<Longrightarrow> indexOf (xs @ ys) x = indexOf xs x"
  by (induction xs) (auto simp: Let_def)

lemma indexOf_append_first: "x \<notin> set xs \<Longrightarrow> indexOf (xs @ x # ys) x = int (length xs)"
  by (induction xs) (auto simp: Let_def)

lemma indexOf_at: "indexOf (pre @ x # ys) x = int (length pre) \<longleftrightarrow> x \<notin> set pre"
  using indexOf_append_first [of x pre ys] indexOf_append_mem [of x pre "x # ys"]
    indexOf_mem [of x pre]
  by auto

lemma first_occurrences_seen_set:
  "set s1 = set s2 \<Longrightarrow> first_occurrences s1 xs = first_occurrences s2 xs"
proof (induction xs arbitrary: s1 s2)
  case Nil
  show ?case by simp
next
  case (Cons x xs)
  from Cons.prems have "set (s1 @ [x]) = set (s2 @ [x])" by simp
  from Cons.IH [OF this] Cons.IH [OF Cons.prems] Cons.prems show ?case by simp
qed

lemma filter_enumerate_first:
  "map snd (filter (\<lambda>(index, item). indexOf (pre @ xs) item = int index)
              (enumerate (length pre) xs))
   = first_occurrences pre xs"
proof (induction xs arbitrary: pre)
  case Nil
  show ?case by simp
next
  case (Cons x xs)
  have step: "map snd (filter (\<lambda>(index, item). indexOf ((pre @ [x]) @ xs) item = int index)
              (enumerate (length (pre @ [x])) xs))
      = first_occurrences (pre @ [x]) xs"
    by (rule Cons.IH)
  show ?case
  proof (cases "x \<in> set pre")
    case True
    then have "set (pre @ [x]) = set pre" by auto
    from first_occurrences_seen_set [OF this] step True show ?thesis
      by (simp add: indexOf_at)
  next
    case False
    with step show ?thesis by (simp add: indexOf_at)
  qed
qed

lemma filter_first_index_eq: "filter_first_index arr = first_occurrences [] arr"
  using filter_enumerate_first [of "[]" arr] by (simp add: filter_first_index_def)

lemma first_occurrences_set: "set (first_occurrences seen xs) = set xs - set seen"
  by (induction xs arbitrary: seen) auto

lemma first_occurrences_distinct: "distinct (first_occurrences seen xs)"
  by (induction xs arbitrary: seen) (auto simp: first_occurrences_set)

lemma contact_parse:
  "contact (parseExtractedText text) =
     (if contactInfo text = [] then None else Some (contactInfo text))"
  by (simp add: parseExtractedText_def Let_def)

text \<open>
  C7: the contact list has no string twice. It is the concatenation of the matches of the
  five categories with every string kept at its first occurrence only, so it has the
  strings of the concatenation and no other; a text with the same email and the same URL
  twice gives one entry for each.
\<close>

theorem contact_list_distinct:
  "distinct (contactInfo text) \<and>
   contactInfo text = first_occurrences [] (contact_matches text) \<and>
   set (contactInfo text) = set (contact_matches text) \<and>
   contact (parseExtractedText text) =
     (if contactInfo text = [] then None else Some (contactInfo text)) \<and>
   contactInfo ''a@b.co, https://x.io and a@b.co, https://x.io'' = [''a@b.co'', ''https://x.io'']"
proof -
  have "contactInfo ''a@b.co, https://x.io and a@b.co, https://x.io''
      = [''a@b.co'', ''https://x.io'']"
    by code_simp
  then show ?thesis
    by (simp add: contactInfo_def filter_first_index_eq first_occurrences_distinct
        first_occurrences_set contact_parse)
qed

lemma not_digit_at: "\<not> is_digit CHR ''@''"
  by (simp add: is_digit_def in_range_def code_def)

lemma not_digit_h: "\<not> is_digit CHR ''h''"
  by (simp add: is_digit_def in_range_def code_def)

lemma year_token_digits: "year_token x \<Longrightarrow> list_all is_digit x \<and> length x = 4"
  by (simp add: year_token_def)

lemma email_not_year: "x \<in> set (emails text) \<Longrightarrow> \<not> year_token x"
  using email_has_at [of x "text"] not_digit_at
  by (auto dest!: year_token_digits simp: list_all_iff)

lemma url_not_year: "x \<in> set (urls text) \<Longrightarrow> \<not> year_token x"
  using url_starts_h [of x "text"] not_digit_h
  by (auto dest!: year_token_digits simp: list_all_iff)

lemma https_not_year: "\<not> year_token (''https://'' @ p)"
  using not_digit_h by (auto dest!: year_token_digits)

lemma phone_ok_digits:
  "phone_ok num \<Longrightarrow> 10 \<le> length (filter is_digit num) \<and> length (filter is_digit num) \<le> 15"
  by (simp add: phone_ok_def Let_def)

lemma phone_not_year: "x \<in> set (phones text) \<Longrightarrow> \<not> year_token x"
proof
  assume "x \<in> set (phones text)" and y: "year_token x"
  then have "phone_ok x" by (simp add: phones_def)
  then have "10 \<le> length (filter is_digit x)" by (simp add: phone_ok_digits)
  moreover from y have "filter is_digit x = x" "length x = 4"
    by (auto dest!: year_token_digits simp: list_all_iff)
  ultimately show False by simp
qed

lemma contact_matches_not_year: "x \<in> set (contact_matches text) \<Longrightarrow> \<not> year_token x"
  using email_not_year [of x "text"] phone_not_year [of x "text"] url_not_year [of x "text"]
    https_not_year
  by (auto simp: contact_matches_def)

text \<open>
  C6: no element of the contact list, for any text, is a string of four digits that reads
  as a year from 1900 to 2099 (an email has an at sign, a URL starts with the letter h,
  and a phone match is kept with 10 to 15 digits only); every phone match that is kept
  has 10 to 15 digits once the other characters are stripped, so a match of 2 or of 4
  digits is rejected.
\<close>

theorem contact_rejects_years:
  "(\<forall>x \<in> set (contactInfo text). \<not> year_token x) \<and>
   (\<forall>cs. contact (parseExtractedText text) = Some cs \<longrightarrow> (\<forall>x \<in> set cs. \<not> year_token x)) \<and>
   (\<forall>num \<in> set (phones text).
      num \<in> set (potentialPhones text) \<and>
      10 \<le> length (filter is_digit num) \<and> length (filter is_digit num) \<le> 15) \<and>
   (\<forall>num \<in> set (potentialPhones text).
      length (filter is_digit num) = 2 \<or> length (filter is_digit num) = 4
      \<longrightarrow> num \<notin> set (phones text))"
proof -
  have set_eq: "set (contactInfo text) = set (contact_matches text)"
    by (simp add: contactInfo_def filter_first_index_eq first_occurrences_set)
  have a: "\<forall>x \<in> set (contactInfo text). \<not> year_token x"
    using contact_matches_not_year by (simp add: set_eq)
  have b: "\<forall>cs. contact (parseExtractedText text) = Some cs \<longrightarrow> (\<forall>x \<in> set cs. \<not> year_token x)"
    using a by (auto simp: contact_parse split: if_splits)
  have c: "\<forall>num \<in> set (phones text).
      num \<in> set (potentialPhones text) \<and>
      10 \<le> length (filter is_digit num) \<and> length (filter is_digit num) \<le> 15"
    by (auto simp: phones_def dest: phone_ok_digits)
  have d: "\<forall>num \<in> set (potentialPhones text).
      length (filter is_digit num) = 2 \<or> length (filter is_digit num) = 4
      \<longrightarrow> num \<notin> set (phones text)"
    using c by fastforce
  from a b c d show ?thesis by blast
qed

theorem contact_rejects_years_witness:
  "''a@b.co'' \<in> set (contactInfo ''2024 +5581999998888 a@b.co'') \<and>
   \<not> year_token ''a@b.co'' \<and>
   ''+5581999998888'' \<in> set (phones ''2024 +5581999998888 a@b.co'') \<and>
   10 \<le> length (filter is_digit ''+5581999998888'') \<and>
   ''2024'' \<in> set (potentialPhones ''2024 +5581999998888 a@b.co'') \<and>
   length (filter is_digit ''2024'') = 4 \<and>
   ''2024'' \<notin> set (phones ''2024 +5581999998888 a@b.co'')"
proof -
  let ?text = "''2024 +5581999998888 a@b.co''"
  have h1: "''a@b.co'' \<in> set (contactInfo ?text)" by code_simp
  have h2: "''+5581999998888'' \<in> set (phones ?text)" by code_simp
  have h3: "''2024'' \<in> set (potentialPhones ?text)" by code_simp
  have h4: "length (filter is_digit ''2024'') = 4" by code_simp
  from contact_rejects_years [of ?text] h1 have c1: "\<not> year_token ''a@b.co''" by blast
  from contact_rejects_years [of ?text] h2
  have c2: "10 \<le> length (filter is_digit ''+5581999998888'')" by blast
  from contact_rejects_years [of ?text] h3 h4
  have c3: "''2024'' \<notin> set (phones ?text)" by blast
  from h1 h2 h3 h4 c1 c2 c3 show ?thesis by blast
qed

section \<open>Properties of the language detection\<close>

lemma capitalize_r: "capitalize ''r'' = ''R''"
  by code_simp

lemma found_R:
  assumes "str_includes textLower ''r''"
  shows "''R'' \<in> set (foundLanguages textLower)"
proof -
  have "''r'' \<in> set programmingLanguages" by (simp add: programmingLanguages_def)
  with assms have "''r'' \<in> set (filter (\<lambda>lang. str_includes textLower lang) programmingLanguages)"
    by simp
  then have "capitalize ''r'' \<in> set (foundLanguages textLower)"
    unfolding foundLanguages_def by (simp only: set_map image_eqI)
  then show ?thesis by (simp only: capitalize_r)
qed

lemma languages_parse:
  "languages (parseExtractedText text) =
     (if length (foundLanguages (toLowerCase text)) > 0
      then Some (map (\<lambda>lang. \<lparr>lang_name = lang, lang_proficiency = ''intermediate'',
                               lang_context = Some ''Extracted from PDF''\<rparr>)
                     (foundLanguages (toLowerCase text)))
      else None)"
  by (simp add: parseExtractedText_def Let_def)

text \<open>
  C10: when the lower-cased text contains the letter r, the fragment has a languages list,
  and the list has the entry named R with proficiency intermediate and context
  "Extracted from PDF".
\<close>

theorem languages_has_R:
  "str_includes (toLowerCase text) ''r'' \<Longrightarrow>
   \<exists>ls. languages (parseExtractedText text) = Some ls \<and>
        \<lparr>lang_name = ''R'', lang_proficiency = ''intermediate'',
         lang_context = Some ''Extracted from PDF''\<rparr> \<in> set ls"
proof -
  assume "str_includes (toLowerCase text) ''r''"
  then have r: "''R'' \<in> set (foundLanguages (toLowerCase text))" by (rule found_R)
  then have "length (foundLanguages (toLowerCase text)) > 0" by (auto simp: length_greater_0_conv)
  with r show ?thesis by (auto simp: languages_parse)
qed

theorem languages_has_R_witness:
  "str_includes (toLowerCase ''Resume'') ''r'' \<and>
   (\<exists>ls. languages (parseExtractedText ''Resume'') = Some ls \<and>
        \<lparr>lang_name = ''R'', lang_proficiency = ''intermediate'',
         lang_context = Some ''Extracted from PDF''\<rparr> \<in> set ls)"
proof -
  have h: "str_includes (toLowerCase ''Resume'') ''r''" by code_simp
  from languages_has_R [OF h] h show ?thesis by simp
qed

section \<open>Properties of the certification scan\<close>

lemma certifications_parse:
  "certifications (parseExtractedText text) =
     (if length (certifications_of text) > 0 then Some (map_of (certifications_of text)) else None)"
  by (simp add: parseExtractedText_def Let_def)

lemma boundary_certs:
  "certifications_of
     (join_lines [''Certifications'', ''AWS Certified Cloud Practitioner'',
                  ''Experience'', ''Random Company''])
   = [(''aws_certified_cloud_practitioner'', cert_entry ''AWS Certified Cloud Practitioner'')]"
  by code_simp

lemma boundary_states:
  "split_on newline
     (join_lines [''Certifications'', ''AWS Certified Cloud Practitioner'',
                  ''Experience'', ''Random Company''])
     = [''Certifications'', ''AWS Certified Cloud Practitioner'',
        ''Experience'', ''Random Company''] \<and>
   inCertSection
     (scan_line 0 \<lparr>lines = [''Certifications'', ''AWS Certified Cloud Practitioner'',
                            ''Experience'', ''Random Company''],
                   inCertSection = False, found = []\<rparr>) \<and>
   \<not> inCertSection
     (scan_line 2 \<lparr>lines = [''Certifications'', ''AWS Certified Cloud Practitioner'',
                            ''Experience'', ''Random Company''],
                   inCertSection = True, found = []\<rparr>) \<and>
   is_candidate True ''random company'' ''Random Company'' \<and>
   \<not> is_candidate False ''random company'' ''Random Company''"
  by code_simp

text \<open>
  C5: on the four lines of the claim the certifications map of the fragment has one entry,
  the one named "AWS Certified Cloud Practitioner", and none for "Random Company". The
  header line sets the section flag, the line "Experience" clears it, and "Random Company"
  is a candidate with the flag set and is none with the flag cleared.
\<close>

theorem certification_section_boundary:
  "certifications
     (parseExtractedText
        (join_lines [''Certifications'', ''AWS Certified Cloud Practitioner'',
                     ''Experience'', ''Random Company'']))
     = Some [''aws_certified_cloud_practitioner''
               \<mapsto> cert_entry ''AWS Certified Cloud Practitioner''] \<and>
   cert_entry ''AWS Certified Cloud Practitioner''
     = JObj [(''name'', JStr ''AWS Certified Cloud Practitioner''),
             (''type'', JStr ''course_completion''), (''extracted_from_pdf'', JBool True)] \<and>
   split_on newline
     (join_lines [''Certifications'', ''AWS Certified Cloud Practitioner'',
                  ''Experience'', ''Random Company''])
     = [''Certifications'', ''AWS Certified Cloud Practitioner'',
        ''Experience'', ''Random Company''] \<and>
   inCertSection
     (scan_line 0 \<lparr>lines = [''Certifications'', ''AWS Certified Cloud Practitioner'',
                            ''Experience'', ''Random Company''],
                   inCertSection = False, found = []\<rparr>) \<and>
   \<not> inCertSection
     (scan_line 2 \<lparr>lines = [''Certifications'', ''AWS Certified Cloud Practitioner'',
                            ''Experience'', ''Random Company''],
                   inCertSection = True, found = []\<rparr>) \<and>
   is_candidate True ''random company'' ''Random Company'' \<and>
   \<not> is_candidate False ''random company'' ''Random Company''"
  using boundary_states
  by (simp only: certifications_parse boundary_certs cert_entry_def) simp

lemma trim_Nil: "trim [] = []"
  by (simp add: trim_def)

lemma scan_line_blank: "lines st ! index = [] \<Longrightarrow> scan_line index st = st"
  by (simp add: scan_line_def toLowerCase_def trim_Nil)

lemma lookahead_continuation:
  "index + 1 < length ls \<Longrightarrow> continuation (trim (ls ! (index + 1))) \<Longrightarrow>
   lookahead ls index certName = (certName @ '' '' @ trim (ls ! (index + 1)), ls[index + 1 := []])"
  by (simp add: lookahead_def continuation_def Let_def)

lemma lookahead_none:
  "\<not> (index + 1 < length ls \<and> continuation (trim (ls ! (index + 1)))) \<Longrightarrow>
   lookahead ls index certName = (certName, ls)"
  by (auto simp: lookahead_def continuation_def Let_def)

lemma scan_line_candidate:
  "candidate_at st index \<Longrightarrow>
   scan_line index st =
     (let st1 = (if inCertSection st \<and>
                    exit_signal (trim (toLowerCase (lines st ! index))) (trim (lines st ! index))
                 then st\<lparr>inCertSection := False\<rparr> else st);
          (merged, ls) = lookahead (lines st) index (trim (lines st ! index));
          certName = rx_remove_first True labelPattern merged;
          st2 = st1\<lparr>lines := ls\<rparr>
      in if length certName > 3 \<and> \<not> isGeneric certName
         then st2\<lparr>found := add_cert (found st) certName\<rparr>
         else st2)"
  by (auto simp: candidate_at_def scan_line_def Let_def split: prod.splits)

lemma azure_certs:
  "certifications_of (join_lines [''Certifications'', ''Microsoft Azure'', ''fundamentals''])
   = [(''microsoft_azure_fundamentals'', cert_entry ''Microsoft Azure fundamentals'')]"
  by code_simp

text \<open>
  C4, as the code has it. When the line at an index is classified as a candidate and the
  next line, trimmed, is not empty, is shorter than 15 characters and, besides, starts
  with a lower-case letter or is exactly "Science", the callback appends it to the name
  with one space, blanks it in the array, and the callback at the next index then leaves
  the state as it is. When the next line fails one of these conditions (or there is no
  next line), the array and the name are left as they are. The lines "Certifications",
  "Microsoft Azure", "fundamentals" give the one certificate "Microsoft Azure
  fundamentals".
\<close>

theorem lookahead_merge:
  "(candidate_at st index \<and> index + 1 < length (lines st) \<and>
    continuation (trim (lines st ! (index + 1)))
    \<longrightarrow> lines (scan_line index st) = (lines st)[index + 1 := []] \<and>
        found (scan_line index st) =
          (let certName = rx_remove_first True labelPattern
                            (trim (lines st ! index) @ '' '' @ trim (lines st ! (index + 1)))
           in if length certName > 3 \<and> \<not> isGeneric certName
              then add_cert (found st) certName else found st) \<and>
        scan_line (index + 1) (scan_line index st) = scan_line index st) \<and>
   (candidate_at st index \<and>
    \<not> (index + 1 < length (lines st) \<and> continuation (trim (lines st ! (index + 1))))
    \<longrightarrow> lines (scan_line index st) = lines st \<and>
        found (scan_line index st) =
          (let certName = rx_remove_first True labelPattern (trim (lines st ! index))
           in if length certName > 3 \<and> \<not> isGeneric certName
              then add_cert (found st) certName else found st)) \<and>
   certifications
     (parseExtractedText (join_lines [''Certifications'', ''Microsoft Azure'', ''fundamentals'']))
     = Some [''microsoft_azure_fundamentals'' \<mapsto> cert_entry ''Microsoft Azure fundamentals'']"
proof -
  have a: "lines (scan_line index st) = (lines st)[index + 1 := []] \<and>
        found (scan_line index st) =
          (let certName = rx_remove_first True labelPattern
                            (trim (lines st ! index) @ '' '' @ trim (lines st ! (index + 1)))
           in if length certName > 3 \<and> \<not> isGeneric certName
              then add_cert (found st) certName else found st) \<and>
        scan_line (index + 1) (scan_line index st) = scan_line index st"
    if c: "candidate_at st index" and i: "index + 1 < length (lines st)"
      and n: "continuation (trim (lines st ! (index + 1)))"
  proof -
    have l: "lines (scan_line index st) = (lines st)[index + 1 := []]"
      by (simp add: scan_line_candidate [OF c] lookahead_continuation [OF i n] Let_def)
    have f: "found (scan_line index st) =
          (let certName = rx_remove_first True labelPattern
                            (trim (lines st ! index) @ '' '' @ trim (lines st ! (index + 1)))
           in if length certName > 3 \<and> \<not> isGeneric certName
              then add_cert (found st) certName else found st)"
      by (simp add: scan_line_candidate [OF c] lookahead_continuation [OF i n] Let_def)
    from l i have "lines (scan_line index st) ! (index + 1) = []" by simp
    then have "scan_line (index + 1) (scan_line index st) = scan_line index st"
      by (rule scan_line_blank)
    with l f show ?thesis by blast
  qed
  have b: "lines (scan_line index st) = lines st \<and>
        found (scan_line index st) =
          (let certName = rx_remove_first True labelPattern (trim (lines st ! index))
           in if length certName > 3 \<and> \<not> isGeneric certName
              then add_cert (found st) certName else found st)"
    if c: "candidate_at st index"
      and n: "\<not> (index + 1 < length (lines st) \<and> continuation (trim (lines st ! (index + 1))))"
    by (simp add: scan_line_candidate [OF c] lookahead_none [OF n] Let_def)
  have e: "certifications
     (parseExtractedText (join_lines [''Certifications'', ''Microsoft Azure'', ''fundamentals'']))
     = Some [''microsoft_azure_fundamentals'' \<mapsto> cert_entry ''Microsoft Azure fundamentals'']"
    by (simp only: certifications_parse azure_certs) simp
  from a b e show ?thesis by blast
qed

theorem lookahead_merge_witness:
  "candidate_at \<lparr>lines = [''Certifications'', ''Microsoft Azure'', ''fundamentals''],
                 inCertSection = True, found = []\<rparr> 1 \<and>
   continuation (trim ''fundamentals'') \<and>
   lines (scan_line 1 \<lparr>lines = [''Certifications'', ''Microsoft Azure'', ''fundamentals''],
                        inCertSection = True, found = []\<rparr>)
     = [''Certifications'', ''Microsoft Azure'', []] \<and>
   candidate_at \<lparr>lines = [''Certifications'', ''Microsoft Azure''],
                 inCertSection = True, found = []\<rparr> 1 \<and>
   lines (scan_line 1 \<lparr>lines = [''Certifications'', ''Microsoft Azure''],
                        inCertSection = True, found = []\<rparr>)
     = [''Certifications'', ''Microsoft Azure'']"
proof -
  let ?st = "\<lparr>lines = [''Certifications'', ''Microsoft Azure'', ''fundamentals''],
              inCertSection = True, found = []\<rparr>"
  let ?st' = "\<lparr>lines = [''Certifications'', ''Microsoft Azure''],
              inCertSection = True, found = []\<rparr>"
  have c: "candidate_at ?st 1" by code_simp
  have i: "1 + 1 < length (lines ?st)" by simp
  have n: "continuation (trim (lines ?st ! (1 + 1)))" by code_simp
  from lookahead_merge [of ?st 1] c i n
  have l: "lines (scan_line 1 ?st) = (lines ?st)[1 + 1 := []]" by blast
  have c': "candidate_at ?st' 1" by code_simp
  have n': "\<not> (1 + 1 < length (lines ?st') \<and> continuation (trim (lines ?st' ! (1 + 1))))"
    by simp
  from lookahead_merge [of ?st' 1] c' n'
  have l': "lines (scan_line 1 ?st') = lines ?st'" by blast
  from c n l c' l' show ?thesis by simp
qed

text \<open>
  C4, as the claim states it, fails: a next line that is short but starts with a capital
  ("Experience") is not appended, and neither is a next line that starts with a
  lower-case letter but has 15 characters or more.
\<close>

theorem lookahead_short_line_counterexample:
  "candidate_at \<lparr>lines = [''Certifications'', ''AWS Certified Cloud Practitioner'', ''Experience''],
                 inCertSection = True, found = []\<rparr> 1 \<and>
   length (trim ''Experience'') < 15 \<and>
   scan_line 1 \<lparr>lines = [''Certifications'', ''AWS Certified Cloud Practitioner'', ''Experience''],
                inCertSection = True, found = []\<rparr>
     = \<lparr>lines = [''Certifications'', ''AWS Certified Cloud Practitioner'', ''Experience''],
        inCertSection = True,
        found = [(''aws_certified_cloud_practitioner'',
                  cert_entry ''AWS Certified Cloud Practitioner'')]\<rparr> \<and>
   candidate_at \<lparr>lines = [''Certifications'', ''Microsoft Azure'', ''fundamentals of the cloud''],
                 inCertSection = True, found = []\<rparr> 1 \<and>
   rx_test False lowerStartPattern (trim ''fundamentals of the cloud'') \<and>
   scan_line 1 \<lparr>lines = [''Certifications'', ''Microsoft Azure'', ''fundamentals of the cloud''],
                inCertSection = True, found = []\<rparr>
     = \<lparr>lines = [''Certifications'', ''Microsoft Azure'', ''fundamentals of the cloud''],
        inCertSection = False,
        found = [(''microsoft_azure'', cert_entry ''Microsoft Azure'')]\<rparr>"
  by code_simp

end
